theory Spec2Isabelle
  imports Main "HOL-Library.AList" "HOL-Library.Word"
begin

section \<open>Values\<close>

text \<open>
  What \<^verbatim>\<open>json.loads\<close> returns and \<^verbatim>\<open>json.dumps\<close> takes: \<^verbatim>\<open>None\<close>, a bool, an int, a
  float (kept as its 64 IEEE bits; no operation of the program looks inside one), a str, a
  list or a dict. A dict is an association list in insertion order, read with \<open>map_of\<close>.
\<close>

datatype json =
    JNull
  | JBool bool
  | JInt int
  | JFloat "64 word"
  | JStr string
  | JArr "json list"
  | JObj "(string \<times> json) list"

type_synonym item = "(string \<times> json) list"

text \<open>
  The exceptions that can travel through the handlers, each with the text \<^verbatim>\<open>str(e)\<close> gives.
  \<open>JSONDecodeError\<close> is what \<^verbatim>\<open>json.loads\<close> raises on a malformed document; \<open>BotoCoreError\<close>
  and \<open>ClientError\<close> are the two classes the handlers catch around a storage call.
\<close>

datatype exn =
    JSONDecodeError string
  | KeyError string
  | TypeError string
  | AttributeError string
  | BotoCoreError string
  | ClientError string
  | OtherError string

fun str_exn :: "exn \<Rightarrow> string" where
  "str_exn (JSONDecodeError m) = m"
| "str_exn (KeyError m) = m"
| "str_exn (TypeError m) = m"
| "str_exn (AttributeError m) = m"
| "str_exn (BotoCoreError m) = m"
| "str_exn (ClientError m) = m"
| "str_exn (OtherError m) = m"

fun is_boto :: "exn \<Rightarrow> bool" where
  "is_boto (BotoCoreError m) = True"
| "is_boto (ClientError m) = True"
| "is_boto e = False"

section \<open>Event, response, library and world\<close>

text \<open>
  A key of the event dict is absent, present with the value \<^verbatim>\<open>None\<close> (JSON null), or present
  with a value. The inbound schema types \<^verbatim>\<open>httpMethod\<close> and \<^verbatim>\<open>path\<close> as strings, and
  \<^verbatim>\<open>pathParameters\<close> and \<^verbatim>\<open>body\<close> as a value or null; the code reads the first three with
  \<^verbatim>\<open>event.get\<close> and a default, so an absent key is a case of its own.
\<close>

datatype 'a field = Absent | Null | Val 'a

record event =
  httpMethod :: "string option"
  path :: "string option"
  pathParameters :: "(string \<times> string) list field"
  body :: "string field"

record response =
  statusCode :: int
  body :: string

text \<open>
  The library functions the module imports, as parameters: \<open>json_loads s\<close> is \<open>Inl msg\<close> when
  \<^verbatim>\<open>json.loads\<close> raises \<^verbatim>\<open>JSONDecodeError\<close>, and \<open>uuid4 n\<close> is the 128-bit value of the
  identifier that the n-th call of \<^verbatim>\<open>uuid.uuid4()\<close> returns.
\<close>

record lib =
  json_loads :: "string \<Rightarrow> string + json"
  json_dumps :: "json \<Rightarrow> string"
  uuid4 :: "nat \<Rightarrow> 128 word"

text \<open>
  The state outside one invocation: the items of the table \<^verbatim>\<open>users_info\<close> in storage order,
  and how many identifiers have been drawn so far.
\<close>

record world =
  table :: "item list"
  drawn :: nat

definition USERS_PATH :: string where
  "USERS_PATH = ''/users''"

definition HEALTH_PATH :: string where
  "HEALTH_PATH = ''/health''"

section \<open>Python operators on parsed values\<close>

text \<open>
  \<^verbatim>\<open>str\<close> of a UUID: the 32 lower-case hexadecimal digits of its value, most significant
  first, in groups of 8, 4, 4, 4 and 12 joined by hyphens.
\<close>

definition hexdigit :: "nat \<Rightarrow> char" where
  "hexdigit n = ''0123456789abcdef'' ! (n mod 16)"

definition hex32 :: "128 word \<Rightarrow> string" where
  "hex32 x = map (\<lambda>i. hexdigit (unat (and (drop_bit (4 * i) x) 15))) (rev [0..<32])"

definition str_uuid :: "128 word \<Rightarrow> string" where
  "str_uuid x =
     (let h = hex32 x
      in take 8 h @ ''-'' @ take 4 (drop 8 h) @ ''-'' @ take 4 (drop 12 h) @ ''-'' @
         take 4 (drop 16 h) @ ''-'' @ drop 20 h)"

definition startswith :: "string \<Rightarrow> string \<Rightarrow> bool" where
  "startswith s p = (take (length p) s = p)"

fun substring :: "string \<Rightarrow> string \<Rightarrow> bool" where
  "substring p [] = (p = [])"
| "substring p (c # cs) = (take (length p) (c # cs) = p \<or> substring p cs)"

fun type_name :: "json \<Rightarrow> string" where
  "type_name JNull = ''NoneType''"
| "type_name (JBool b) = ''bool''"
| "type_name (JInt i) = ''int''"
| "type_name (JFloat f) = ''float''"
| "type_name (JStr s) = ''str''"
| "type_name (JArr xs) = ''list''"
| "type_name (JObj d) = ''dict''"

definition quoted :: "string \<Rightarrow> string" where
  "quoted s = [CHR 0x27] @ s @ [CHR 0x27]"

text \<open>
  \<^verbatim>\<open>k in v\<close> for a str \<open>k\<close>: key membership in a dict, element membership in a list,
  substring in a str, and \<^verbatim>\<open>TypeError\<close> on everything else.
\<close>

fun py_in :: "string \<Rightarrow> json \<Rightarrow> exn + bool" where
  "py_in k (JObj d) = Inr (map_of d k \<noteq> None)"
| "py_in k (JArr xs) = Inr (List.member xs (JStr k))"
| "py_in k (JStr s) = Inr (substring k s)"
| "py_in k v = Inl (TypeError (''argument of type '' @ quoted (type_name v) @ '' is not iterable''))"

text \<open>\<^verbatim>\<open>v[k]\<close> for a str \<open>k\<close>.\<close>

fun py_getitem :: "json \<Rightarrow> string \<Rightarrow> exn + json" where
  "py_getitem (JObj d) k = (case map_of d k of None \<Rightarrow> Inl (KeyError (quoted k)) | Some x \<Rightarrow> Inr x)"
| "py_getitem (JArr xs) k = Inl (TypeError ''list indices must be integers or slices, not str'')"
| "py_getitem (JStr s) k = Inl (TypeError (''string indices must be integers, not '' @ quoted ''str''))"
| "py_getitem v k = Inl (TypeError (quoted (type_name v) @ '' object is not subscriptable''))"

section \<open>The backend table\<close>

text \<open>
  The table is an external service keyed by the attribute \<^verbatim>\<open>user_id\<close>. It is modelled as the
  list of its items: a put replaces the item of the same key or appends, a get finds the item
  of a key, a scan returns every item, an update sets two attributes of the item of a key and
  creates the item when there is none, a delete removes the item of a key. Each call of the
  program takes the outcome of the service as \<open>fault\<close>: \<open>None\<close> when the call goes through,
  \<open>Some e\<close> when it raises \<open>e\<close> and leaves the table as it was.
\<close>

definition key_of :: "item \<Rightarrow> string option" where
  "key_of it = (case map_of it ''user_id'' of Some (JStr k) \<Rightarrow> Some k | _ \<Rightarrow> None)"

fun tbl_put :: "item \<Rightarrow> item list \<Rightarrow> item list" where
  "tbl_put it [] = [it]"
| "tbl_put it (x # xs) = (if key_of x = key_of it then it # xs else x # tbl_put it xs)"

definition tbl_get :: "string \<Rightarrow> item list \<Rightarrow> item option" where
  "tbl_get k t = find (\<lambda>x. key_of x = Some k) t"

definition set_name_email :: "json \<Rightarrow> json \<Rightarrow> item \<Rightarrow> item" where
  "set_name_email n e it = AList.update ''email'' e (AList.update ''name'' n it)"

fun tbl_update :: "string \<Rightarrow> json \<Rightarrow> json \<Rightarrow> item list \<Rightarrow> item list" where
  "tbl_update k n e [] = [set_name_email n e [(''user_id'', JStr k)]]"
| "tbl_update k n e (x # xs) =
     (if key_of x = Some k then set_name_email n e x # xs else x # tbl_update k n e xs)"

definition tbl_delete :: "string \<Rightarrow> item list \<Rightarrow> item list" where
  "tbl_delete k t = filter (\<lambda>x. key_of x \<noteq> Some k) t"

definition put_item :: "exn option \<Rightarrow> item \<Rightarrow> item list \<Rightarrow> exn + item list" where
  "put_item fault it t = (case fault of Some e \<Rightarrow> Inl e | None \<Rightarrow> Inr (tbl_put it t))"

definition get_item :: "exn option \<Rightarrow> string \<Rightarrow> item list \<Rightarrow> exn + item option" where
  "get_item fault k t = (case fault of Some e \<Rightarrow> Inl e | None \<Rightarrow> Inr (tbl_get k t))"

definition scan :: "exn option \<Rightarrow> item list \<Rightarrow> exn + item list" where
  "scan fault t = (case fault of Some e \<Rightarrow> Inl e | None \<Rightarrow> Inr t)"

definition update_item :: "exn option \<Rightarrow> string \<Rightarrow> json \<Rightarrow> json \<Rightarrow> item list \<Rightarrow> exn + item list" where
  "update_item fault k n e t = (case fault of Some x \<Rightarrow> Inl x | None \<Rightarrow> Inr (tbl_update k n e t))"

definition delete_item :: "exn option \<Rightarrow> string \<Rightarrow> item list \<Rightarrow> exn + item list" where
  "delete_item fault k t = (case fault of Some e \<Rightarrow> Inl e | None \<Rightarrow> Inr (tbl_delete k t))"

section \<open>The handlers\<close>

definition success_response :: "lib \<Rightarrow> json \<Rightarrow> int \<Rightarrow> response" where
  "success_response L data status_code =
     \<lparr>statusCode = status_code, body = json_dumps L data\<rparr>"

definition error_response :: "lib \<Rightarrow> int \<Rightarrow> string \<Rightarrow> response" where
  "error_response L status_code message =
     \<lparr>statusCode = status_code, body = json_dumps L (JObj [(''error'', JStr message)])\<rparr>"

text \<open>
  \<^verbatim>\<open>except (BotoCoreError, ClientError) as e\<close>, the clause that closes every handler's body:
  those two become a 500 response, every other exception leaves the handler.
\<close>

definition catch_boto :: "lib \<Rightarrow> exn + response \<Rightarrow> exn + response" where
  "catch_boto L r =
     (case r of
        Inl e \<Rightarrow> if is_boto e then Inr (error_response L 500 (''DynamoDB error: '' @ str_exn e))
                 else Inl e
      | Inr x \<Rightarrow> Inr x)"

definition except_boto :: "lib \<Rightarrow> (exn + response) \<times> world \<Rightarrow> (exn + response) \<times> world" where
  "except_boto L rw = (catch_boto L (fst rw), snd rw)"

text \<open>\<^verbatim>\<open>json.loads(event['body'])\<close>: a missing key, a null body and a malformed document raise.\<close>

definition loads_body :: "lib \<Rightarrow> event \<Rightarrow> exn + json" where
  "loads_body L ev =
     (case event.body ev of
        Absent \<Rightarrow> Inl (KeyError (quoted ''body''))
      | Null \<Rightarrow> Inl (TypeError ''the JSON object must be str, bytes or bytearray, not NoneType'')
      | Val s \<Rightarrow> (case json_loads L s of Inl m \<Rightarrow> Inl (JSONDecodeError m) | Inr v \<Rightarrow> Inr v))"

text \<open>
  \<^verbatim>\<open>'name' not in body or 'email' not in body\<close>, the second test evaluated only when the first
  is false.
\<close>

definition missing_fields :: "json \<Rightarrow> exn + bool" where
  "missing_fields b =
     (case py_in ''name'' b of
        Inl e \<Rightarrow> Inl e
      | Inr has_name \<Rightarrow>
          if has_name
          then (case py_in ''email'' b of Inl e \<Rightarrow> Inl e | Inr has_email \<Rightarrow> Inr (has_email = False))
          else Inr True)"

text \<open>
  \<^verbatim>\<open>event.get('pathParameters', {}).get('user_id')\<close>: the default is used only when the key
  is absent; a null value has no \<^verbatim>\<open>get\<close>.
\<close>

definition path_user_id :: "event \<Rightarrow> exn + string option" where
  "path_user_id ev =
     (case pathParameters ev of
        Absent \<Rightarrow> Inr None
      | Null \<Rightarrow> Inl (AttributeError (quoted ''NoneType'' @ '' object has no attribute '' @ quoted ''get''))
      | Val d \<Rightarrow> Inr (map_of d ''user_id''))"

definition create_user :: "lib \<Rightarrow> exn option \<Rightarrow> event \<Rightarrow> world \<Rightarrow> (exn + response) \<times> world" where
  "create_user L fault ev w = except_boto L
     (case loads_body L ev of
        Inl e \<Rightarrow> (Inl e, w)
      | Inr b \<Rightarrow>
         (case missing_fields b of
            Inl e \<Rightarrow> (Inl e, w)
          | Inr missing \<Rightarrow>
              if missing
              then (Inr (error_response L 400 ''Missing required fields: name, email''), w)
              else
                let user_id = str_uuid (uuid4 L (drawn w));
                    w1 = w\<lparr>drawn := Suc (drawn w)\<rparr>
                in (case py_getitem b ''name'' of
                      Inl e \<Rightarrow> (Inl e, w1)
                    | Inr n \<Rightarrow>
                       (case py_getitem b ''email'' of
                          Inl e \<Rightarrow> (Inl e, w1)
                        | Inr em \<Rightarrow>
                            let user_data = [(''user_id'', JStr user_id), (''name'', n), (''email'', em)]
                            in (case put_item fault user_data (table w1) of
                                  Inl e \<Rightarrow> (Inl e, w1)
                                | Inr t \<Rightarrow>
                                    (Inr (success_response L (JObj user_data) 201),
                                     w1\<lparr>table := t\<rparr>))))))"

definition list_all_users :: "lib \<Rightarrow> exn option \<Rightarrow> world \<Rightarrow> (exn + response) \<times> world" where
  "list_all_users L fault w = except_boto L
     (case scan fault (table w) of
        Inl e \<Rightarrow> (Inl e, w)
      | Inr users \<Rightarrow> (Inr (success_response L (JArr (map JObj users)) 200), w))"

definition get_user :: "lib \<Rightarrow> exn option \<Rightarrow> event \<Rightarrow> world \<Rightarrow> (exn + response) \<times> world" where
  "get_user L fault ev w = except_boto L
     (case path_user_id ev of
        Inl e \<Rightarrow> (Inl e, w)
      | Inr None \<Rightarrow> list_all_users L fault w
      | Inr (Some user_id) \<Rightarrow>
          if user_id = [] then list_all_users L fault w
          else
            (case get_item fault user_id (table w) of
               Inl e \<Rightarrow> (Inl e, w)
             | Inr None \<Rightarrow> (Inr (error_response L 404 ''User not found''), w)
             | Inr (Some user) \<Rightarrow>
                 if user = [] then (Inr (error_response L 404 ''User not found''), w)
                 else (Inr (success_response L (JObj user) 200), w)))"

definition update_user :: "lib \<Rightarrow> exn option \<Rightarrow> event \<Rightarrow> world \<Rightarrow> (exn + response) \<times> world" where
  "update_user L fault ev w = except_boto L
     (case path_user_id ev of
        Inl e \<Rightarrow> (Inl e, w)
      | Inr None \<Rightarrow> (Inr (error_response L 400 ''Missing user ID''), w)
      | Inr (Some user_id) \<Rightarrow>
          if user_id = [] then (Inr (error_response L 400 ''Missing user ID''), w)
          else
            (case loads_body L ev of
               Inl e \<Rightarrow> (Inl e, w)
             | Inr b \<Rightarrow>
                (case missing_fields b of
                   Inl e \<Rightarrow> (Inl e, w)
                 | Inr missing \<Rightarrow>
                     if missing
                     then (Inr (error_response L 400 ''Missing required fields: name, email''), w)
                     else
                       (case py_getitem b ''name'' of
                          Inl e \<Rightarrow> (Inl e, w)
                        | Inr n \<Rightarrow>
                           (case py_getitem b ''email'' of
                              Inl e \<Rightarrow> (Inl e, w)
                            | Inr em \<Rightarrow>
                               (case update_item fault user_id n em (table w) of
                                  Inl e \<Rightarrow> (Inl e, w)
                                | Inr t \<Rightarrow>
                                    (Inr (success_response L
                                            (JObj [(''message'', JStr ''User updated successfully'')]) 200),
                                     w\<lparr>table := t\<rparr>)))))))"

definition delete_user :: "lib \<Rightarrow> exn option \<Rightarrow> event \<Rightarrow> world \<Rightarrow> (exn + response) \<times> world" where
  "delete_user L fault ev w = except_boto L
     (case path_user_id ev of
        Inl e \<Rightarrow> (Inl e, w)
      | Inr None \<Rightarrow> (Inr (error_response L 400 ''Missing user ID''), w)
      | Inr (Some user_id) \<Rightarrow>
          if user_id = [] then (Inr (error_response L 400 ''Missing user ID''), w)
          else
            (case delete_item fault user_id (table w) of
               Inl e \<Rightarrow> (Inl e, w)
             | Inr t \<Rightarrow>
                 (Inr (success_response L
                         (JObj [(''message'', JStr (''User '' @ user_id @ '' deleted successfully''))]) 204),
                  w\<lparr>table := t\<rparr>)))"

text \<open>
  The two outer \<^verbatim>\<open>except\<close> clauses of \<^verbatim>\<open>lambda_handler\<close>: a \<^verbatim>\<open>JSONDecodeError\<close> becomes a 400
  response, every other exception a 500 response.
\<close>

fun handle_exn :: "lib \<Rightarrow> exn + response \<Rightarrow> response" where
  "handle_exn L (Inr r) = r"
| "handle_exn L (Inl (JSONDecodeError m)) = error_response L 400 ''Invalid JSON format''"
| "handle_exn L (Inl e) = error_response L 500 (''Internal Server Error: '' @ str_exn e)"

definition route :: "lib \<Rightarrow> exn option \<Rightarrow> event \<Rightarrow> world \<Rightarrow> (exn + response) \<times> world" where
  "route L fault ev w =
     (let http_method = (case httpMethod ev of None \<Rightarrow> [] | Some m \<Rightarrow> m);
          path = (case event.path ev of None \<Rightarrow> [] | Some p \<Rightarrow> p)
      in if http_method = ''GET'' \<and> path = HEALTH_PATH
         then (Inr (success_response L (JObj [(''message'', JStr ''API is up and running'')]) 200), w)
         else if http_method = ''POST'' \<and> path = USERS_PATH then create_user L fault ev w
         else if http_method = ''GET'' \<and> startswith path USERS_PATH then get_user L fault ev w
         else if http_method = ''PUT'' \<and> startswith path USERS_PATH then update_user L fault ev w
         else if http_method = ''DELETE'' \<and> startswith path USERS_PATH then delete_user L fault ev w
         else (Inr (error_response L 405 ''Method Not Allowed''), w))"

definition lambda_handler :: "lib \<Rightarrow> exn option \<Rightarrow> event \<Rightarrow> 'c \<Rightarrow> world \<Rightarrow> response \<times> world" where
  "lambda_handler L fault ev context w =
     (case route L fault ev w of (r, w') \<Rightarrow> (handle_exn L r, w'))"

section \<open>The dispatch table as the specification words it\<close>

text \<open>
  The specification gives the dispatch as a table of five rules in priority order, the first
  match winning, and a sixth line for no match. \<open>spec_rules\<close> is that table,
  \<open>spec_first_match\<close> its evaluation and \<open>spec_dispatch\<close> what the matched rule runs; the
  theorems compare them with the chain of tests in \<open>route\<close>.
\<close>

datatype operation = Health | Create | Read | Update | Delete

definition spec_rules :: "((string \<Rightarrow> string \<Rightarrow> bool) \<times> operation) list" where
  "spec_rules =
     [(\<lambda>m p. m = ''GET'' \<and> p = HEALTH_PATH, Health),
      (\<lambda>m p. m = ''POST'' \<and> p = USERS_PATH, Create),
      (\<lambda>m p. m = ''GET'' \<and> startswith p USERS_PATH, Read),
      (\<lambda>m p. m = ''PUT'' \<and> startswith p USERS_PATH, Update),
      (\<lambda>m p. m = ''DELETE'' \<and> startswith p USERS_PATH, Delete)]"

fun spec_first_match :: "((string \<Rightarrow> string \<Rightarrow> bool) \<times> operation) list \<Rightarrow> string \<Rightarrow> string \<Rightarrow> operation option" where
  "spec_first_match [] m p = None"
| "spec_first_match ((c, h) # rs) m p = (if c m p then Some h else spec_first_match rs m p)"

fun spec_dispatch :: "lib \<Rightarrow> exn option \<Rightarrow> event \<Rightarrow> world \<Rightarrow> operation option \<Rightarrow> (exn + response) \<times> world" where
  "spec_dispatch L fault ev w (Some Health) =
     (Inr (success_response L (JObj [(''message'', JStr ''API is up and running'')]) 200), w)"
| "spec_dispatch L fault ev w (Some Create) = create_user L fault ev w"
| "spec_dispatch L fault ev w (Some Read) = get_user L fault ev w"
| "spec_dispatch L fault ev w (Some Update) = update_user L fault ev w"
| "spec_dispatch L fault ev w (Some Delete) = delete_user L fault ev w"
| "spec_dispatch L fault ev w None = (Inr (error_response L 405 ''Method Not Allowed''), w)"

definition method_of :: "event \<Rightarrow> string" where
  "method_of ev = (case httpMethod ev of None \<Rightarrow> [] | Some m \<Rightarrow> m)"

definition path_of :: "event \<Rightarrow> string" where
  "path_of ev = (case event.path ev of None \<Rightarrow> [] | Some p \<Rightarrow> p)"

section \<open>A library to evaluate examples with\<close>

text \<open>
  Every theorem below holds for every library \<open>L\<close>. To run the handlers on concrete events
  the examples use this one: a parser that knows two documents and rejects every other
  string, a printer with the separators of \<^verbatim>\<open>json.dumps\<close> and no escaping, and identifiers
  that count up from a fixed one.
\<close>

function show_nat :: "nat \<Rightarrow> string" where
  "show_nat n =
     (if n < 10 then [char_of (48 + n)] else show_nat (n div 10) @ [char_of (48 + n mod 10)])"
  by pat_completeness auto
termination
  by (relation "measure id") auto

fun sample_dumps :: "json \<Rightarrow> string"
and sample_dumps_list :: "json list \<Rightarrow> string"
and sample_dumps_pairs :: "(string \<times> json) list \<Rightarrow> string" where
  "sample_dumps JNull = ''null''"
| "sample_dumps (JBool b) = (if b then ''true'' else ''false'')"
| "sample_dumps (JInt i) = (if i < 0 then ''-'' @ show_nat (nat (- i)) else show_nat (nat i))"
| "sample_dumps (JFloat f) = ''NaN''"
| "sample_dumps (JStr s) = [CHR 0x22] @ s @ [CHR 0x22]"
| "sample_dumps (JArr xs) = ''['' @ sample_dumps_list xs @ '']''"
| "sample_dumps (JObj d) = ''{'' @ sample_dumps_pairs d @ ''}''"
| "sample_dumps_list [] = []"
| "sample_dumps_list [x] = sample_dumps x"
| "sample_dumps_list (x # y # ys) = sample_dumps x @ '', '' @ sample_dumps_list (y # ys)"
| "sample_dumps_pairs [] = []"
| "sample_dumps_pairs [(k, v)] = [CHR 0x22] @ k @ [CHR 0x22] @ '': '' @ sample_dumps v"
| "sample_dumps_pairs ((k, v) # p # ps) =
     [CHR 0x22] @ k @ [CHR 0x22] @ '': '' @ sample_dumps v @ '', '' @ sample_dumps_pairs (p # ps)"

definition sample_loads :: "string \<Rightarrow> string + json" where
  "sample_loads s =
     (if s = ''{\"name\": \"Ana\", \"email\": \"ana@x.com\"}''
      then Inr (JObj [(''name'', JStr ''Ana''), (''email'', JStr ''ana@x.com'')])
      else if s = ''{\"name\": \"Ana\"}'' then Inr (JObj [(''name'', JStr ''Ana'')])
      else Inl ''Expecting value: line 1 column 1 (char 0)'')"

definition sample_uuid4 :: "nat \<Rightarrow> 128 word" where
  "sample_uuid4 n = 0x123e4567e89b42d3a456426614174000 + word_of_nat n"

definition sample_lib :: lib where
  "sample_lib = \<lparr>json_loads = sample_loads, json_dumps = sample_dumps, uuid4 = sample_uuid4\<rparr>"


section \<open>Basic facts\<close>

lemma catch_boto_Inr: "catch_boto L (Inr r) = Inr r"
  by (simp add: catch_boto_def)

lemma except_boto_Inr: "except_boto L (Inr r, w) = (Inr r, w)"
  by (simp add: except_boto_def catch_boto_def)

lemma except_boto_Inl: "\<not> is_boto e \<Longrightarrow> except_boto L (Inl e, w) = (Inl e, w)"
  by (simp add: except_boto_def catch_boto_def)

lemma route_post_users:
  "httpMethod ev = Some ''POST'' \<Longrightarrow> event.path ev = Some ''/users'' \<Longrightarrow>
   route L fault ev w = create_user L fault ev w"
  by (simp add: route_def USERS_PATH_def HEALTH_PATH_def)

lemma missing_fields_obj:
  "missing_fields (JObj d) = Inr (map_of d ''name'' = None \<or> map_of d ''email'' = None)"
  by (auto simp add: missing_fields_def)

lemma startswith_users_not_health: "startswith p ''/users'' \<Longrightarrow> p \<noteq> ''/health''"
  by (auto simp add: startswith_def)

lemma route_get_users:
  "httpMethod ev = Some ''GET'' \<Longrightarrow> event.path ev = Some p \<Longrightarrow> startswith p ''/users'' \<Longrightarrow>
   route L fault ev w = get_user L fault ev w"
  using startswith_users_not_health [of p]
  by (simp add: route_def USERS_PATH_def HEALTH_PATH_def Let_def)


lemma route_delete_users:
  "httpMethod ev = Some ''DELETE'' \<Longrightarrow> event.path ev = Some p \<Longrightarrow> startswith p ''/users'' \<Longrightarrow>
   route L fault ev w = delete_user L fault ev w"
  by (simp add: route_def USERS_PATH_def HEALTH_PATH_def Let_def)


lemma key_of_nonempty: "key_of u = Some k \<Longrightarrow> u \<noteq> []"
  by (auto simp add: key_of_def)

lemma tbl_get_key: "tbl_get k t = Some u \<Longrightarrow> key_of u = Some k"
  by (auto simp add: tbl_get_def find_Some_iff)


lemma path_user_id_val:
  "pathParameters ev = Val ps \<Longrightarrow> path_user_id ev = Inr (map_of ps ''user_id'')"
  by (simp add: path_user_id_def)

lemma get_user_by_id:
  assumes "pathParameters ev = Val ps" and "map_of ps ''user_id'' = Some uid" and "uid \<noteq> []"
  shows "get_user L None ev w =
     (case tbl_get uid (table w) of
        None \<Rightarrow> Inr (error_response L 404 ''User not found'')
      | Some user \<Rightarrow> Inr (success_response L (JObj user) 200), w)"
proof (cases "tbl_get uid (table w)")
  case None
  then show ?thesis
    using assms by (simp add: get_user_def path_user_id_val get_item_def except_boto_Inr)
next
  case (Some user)
  then have "user \<noteq> []"
    using key_of_nonempty tbl_get_key by blast
  with Some show ?thesis
    using assms by (simp add: get_user_def path_user_id_val get_item_def except_boto_Inr)
qed

section \<open>The text of an identifier\<close>









section \<open>Create\<close>

text \<open>
  C3. A POST on \<^verbatim>\<open>/users\<close> whose body parses to a JSON object that lacks the key \<^verbatim>\<open>name\<close>
  or lacks the key \<^verbatim>\<open>email\<close> is answered with status 400 and the body
  \<^verbatim>\<open>{"error": "Missing required fields: name, email"}\<close>, whatever else the object, the path
  parameters, the table or the backend hold; nothing is written.
\<close>

theorem create_missing_fields_400:
  assumes "httpMethod ev = Some ''POST''" and "event.path ev = Some ''/users''"
    and "event.body ev = Val s" and "json_loads L s = Inr (JObj d)"
    and "map_of d ''name'' = None \<or> map_of d ''email'' = None"
  shows "lambda_handler L fault ev context w =
           (\<lparr>statusCode = 400,
             body = json_dumps L (JObj [(''error'', JStr ''Missing required fields: name, email'')])\<rparr>, w)"
proof -
  have "loads_body L ev = Inr (JObj d)"
    using assms(3,4) by (simp add: loads_body_def)
  moreover have "missing_fields (JObj d) = Inr True"
    using assms(5) by (simp add: missing_fields_obj)
  ultimately have "create_user L fault ev w =
      (Inr (error_response L 400 ''Missing required fields: name, email''), w)"
    by (simp add: create_user_def except_boto_Inr)
  then show ?thesis
    using assms(1,2) by (simp add: lambda_handler_def route_post_users error_response_def)
qed

theorem create_missing_fields_400_witness:
  "lambda_handler sample_lib None
     \<lparr>httpMethod = Some ''POST'', path = Some ''/users'', pathParameters = Null,
      body = Val ''{\"name\": \"Ana\"}''\<rparr> () \<lparr>table = [], drawn = 0\<rparr> =
   (\<lparr>statusCode = 400, body = ''{\"error\": \"Missing required fields: name, email\"}''\<rparr>,
    \<lparr>table = [], drawn = 0\<rparr>)"
  using create_missing_fields_400 [of
      "\<lparr>httpMethod = Some ''POST'', path = Some ''/users'', pathParameters = Null,
        body = Val ''{\"name\": \"Ana\"}''\<rparr>"
      "''{\"name\": \"Ana\"}''" sample_lib "[(''name'', JStr ''Ana'')]" None "()"
      "\<lparr>table = [], drawn = 0\<rparr>"]
  by (simp add: sample_lib_def sample_loads_def)









section \<open>Create, then fetch\<close>



section \<open>Fetch\<close>



section \<open>Dispatch\<close>

text \<open>
  C9. The chain of tests in the handler is the dispatch table of the specification, five
  rules tried in order with the first match winning; and an event whose method and path
  match no rule is answered with status 405 and the body
  \<^verbatim>\<open>{"error": "Method Not Allowed"}\<close>, whatever the backend would have answered, with the
  table untouched: no storage operation is reached.
\<close>

theorem dispatch_first_match_405:
  "route L fault ev w =
     spec_dispatch L fault ev w (spec_first_match spec_rules (method_of ev) (path_of ev))
   \<and> (spec_first_match spec_rules (method_of ev) (path_of ev) = None \<longrightarrow>
        lambda_handler L fault ev context w =
          (\<lparr>statusCode = 405, body = json_dumps L (JObj [(''error'', JStr ''Method Not Allowed'')])\<rparr>, w))"
proof -
  have r: "route L fault ev w =
     spec_dispatch L fault ev w (spec_first_match spec_rules (method_of ev) (path_of ev))"
    by (simp add: route_def spec_rules_def method_of_def path_of_def Let_def)
  show ?thesis
    by (simp add: r lambda_handler_def error_response_def)
qed

theorem dispatch_first_match_405_witness:
  "lambda_handler sample_lib (Some (ClientError ''down''))
     \<lparr>httpMethod = Some ''PATCH'', path = Some ''/users/u1'',
      pathParameters = Val [(''user_id'', ''u1'')], body = Null\<rparr> ()
     \<lparr>table = [[(''user_id'', JStr ''u1'')]], drawn = 1\<rparr> =
   (\<lparr>statusCode = 405, body = ''{\"error\": \"Method Not Allowed\"}''\<rparr>,
    \<lparr>table = [[(''user_id'', JStr ''u1'')]], drawn = 1\<rparr>)"
  using dispatch_first_match_405 [of sample_lib "Some (ClientError ''down'')"
      "\<lparr>httpMethod = Some ''PATCH'', path = Some ''/users/u1'',
        pathParameters = Val [(''user_id'', ''u1'')], body = Null\<rparr>"
      "\<lparr>table = [[(''user_id'', JStr ''u1'')]], drawn = 1\<rparr>" "()"]
  by (simp add: spec_rules_def method_of_def path_of_def sample_lib_def)

section \<open>Update and delete\<close>






lemma tbl_get_delete: "tbl_get k (tbl_delete k t) = None"
  by (simp add: tbl_get_def tbl_delete_def find_None_iff)

lemma tbl_delete_idem: "tbl_delete k (tbl_delete k t) = tbl_delete k t"
  by (simp add: tbl_delete_def)


lemma delete_user_ok:
  assumes "pathParameters ev = Val ps" and "map_of ps ''user_id'' = Some uid" and "uid \<noteq> []"
  shows "delete_user L None ev w =
     (Inr (success_response L
        (JObj [(''message'', JStr (''User '' @ uid @ '' deleted successfully''))]) 204),
      w\<lparr>table := tbl_delete uid (table w)\<rparr>)"
  using assms by (simp add: delete_user_def path_user_id_val delete_item_def except_boto_Inr)





text \<open>
  C8. A DELETE on a path under \<^verbatim>\<open>/users\<close> with a \<^verbatim>\<open>user_id\<close> path parameter (non-empty: the
  handler reads an empty one as no parameter) removes the item of that key, whether or not
  there is one, and returns status 204 with the message \<^verbatim>\<open>User <user_id> deleted successfully\<close>
  as body; no item of that key is left; the same DELETE run again returns the same 204 and
  changes nothing; and a GET of that \<^verbatim>\<open>user_id\<close> afterwards returns 404. All backend calls
  go through.
\<close>

theorem delete_user_204:
  assumes "httpMethod ev = Some ''DELETE''" and "event.path ev = Some p" and "startswith p ''/users''"
    and "pathParameters ev = Val ps" and "map_of ps ''user_id'' = Some uid" and "uid \<noteq> []"
    and "httpMethod ev' = Some ''GET''" and "event.path ev' = Some p'" and "startswith p' ''/users''"
    and "pathParameters ev' = Val ps'" and "map_of ps' ''user_id'' = Some uid"
  shows "lambda_handler L None ev context w =
           (\<lparr>statusCode = 204,
             body = json_dumps L (JObj [(''message'', JStr (''User '' @ uid @ '' deleted successfully''))])\<rparr>,
            w\<lparr>table := tbl_delete uid (table w)\<rparr>)
         \<and> tbl_get uid (table (snd (lambda_handler L None ev context w))) = None
         \<and> lambda_handler L None ev context (snd (lambda_handler L None ev context w)) =
           (\<lparr>statusCode = 204,
             body = json_dumps L (JObj [(''message'', JStr (''User '' @ uid @ '' deleted successfully''))])\<rparr>,
            snd (lambda_handler L None ev context w))
         \<and> lambda_handler L None ev' context' (snd (lambda_handler L None ev context w)) =
           (\<lparr>statusCode = 404, body = json_dumps L (JObj [(''error'', JStr ''User not found'')])\<rparr>,
            snd (lambda_handler L None ev context w))"
proof -
  let ?w1 = "w\<lparr>table := tbl_delete uid (table w)\<rparr>"
  have d: "lambda_handler L None ev context v =
      (\<lparr>statusCode = 204,
        body = json_dumps L (JObj [(''message'', JStr (''User '' @ uid @ '' deleted successfully''))])\<rparr>,
       v\<lparr>table := tbl_delete uid (table v)\<rparr>)" for v
    using assms(1-3) delete_user_ok [OF assms(4-6)]
    by (simp add: lambda_handler_def route_delete_users success_response_def)
  have g: "tbl_get uid (table ?w1) = None"
    by (simp add: tbl_get_delete)
  have "get_user L None ev' ?w1 = (Inr (error_response L 404 ''User not found''), ?w1)"
    using get_user_by_id [OF assms(10,11,6), of L ?w1] g by simp
  then have get: "lambda_handler L None ev' context' ?w1 =
      (\<lparr>statusCode = 404, body = json_dumps L (JObj [(''error'', JStr ''User not found'')])\<rparr>, ?w1)"
    using assms(7-9) by (simp add: lambda_handler_def route_get_users error_response_def)
  show ?thesis
    using g get by (simp add: d tbl_delete_idem)
qed


theorem delete_user_204_witness:
  "lambda_handler sample_lib None
     \<lparr>httpMethod = Some ''DELETE'', path = Some ''/users/u1'',
      pathParameters = Val [(''user_id'', ''u1'')], body = Null\<rparr> ()
     \<lparr>table = [[(''user_id'', JStr ''u1''), (''name'', JStr ''Ana''), (''email'', JStr ''ana@x.com'')]],
      drawn = 1\<rparr> =
   (\<lparr>statusCode = 204, body = ''{\"message\": \"User u1 deleted successfully\"}''\<rparr>,
    \<lparr>table = [], drawn = 1\<rparr>)
   \<and> lambda_handler sample_lib None
     \<lparr>httpMethod = Some ''DELETE'', path = Some ''/users/u1'',
      pathParameters = Val [(''user_id'', ''u1'')], body = Null\<rparr> () \<lparr>table = [], drawn = 1\<rparr> =
   (\<lparr>statusCode = 204, body = ''{\"message\": \"User u1 deleted successfully\"}''\<rparr>,
    \<lparr>table = [], drawn = 1\<rparr>)
   \<and> lambda_handler sample_lib None
     \<lparr>httpMethod = Some ''GET'', path = Some ''/users/u1'',
      pathParameters = Val [(''user_id'', ''u1'')], body = Null\<rparr> () \<lparr>table = [], drawn = 1\<rparr> =
   (\<lparr>statusCode = 404, body = ''{\"error\": \"User not found\"}''\<rparr>, \<lparr>table = [], drawn = 1\<rparr>)"
  using delete_user_204 [of
      "\<lparr>httpMethod = Some ''DELETE'', path = Some ''/users/u1'',
        pathParameters = Val [(''user_id'', ''u1'')], body = Null\<rparr>"
      "''/users/u1''" "[(''user_id'', ''u1'')]" "''u1''"
      "\<lparr>httpMethod = Some ''GET'', path = Some ''/users/u1'',
        pathParameters = Val [(''user_id'', ''u1'')], body = Null\<rparr>"
      "''/users/u1''" "[(''user_id'', ''u1'')]" sample_lib "()"
      "\<lparr>table = [[(''user_id'', JStr ''u1''), (''name'', JStr ''Ana''), (''email'', JStr ''ana@x.com'')]],
        drawn = 1\<rparr>" "()"]
  by (clarsimp simp add: sample_lib_def startswith_def key_of_def tbl_delete_def)

section \<open>No write on a validation failure\<close>

lemma create_user_frame:
  "create_user L fault ev w = (r, w') \<Longrightarrow>
   table w' = table w \<or> (\<exists>x. r = Inr x \<and> statusCode x = 201)"
  by (auto simp add: create_user_def except_boto_def catch_boto_def Let_def put_item_def
      success_response_def split: sum.splits if_splits option.splits)

lemma update_user_frame:
  "update_user L fault ev w = (r, w') \<Longrightarrow>
   table w' = table w \<or> (\<exists>x. r = Inr x \<and> statusCode x = 200)"
  by (auto simp add: update_user_def except_boto_def catch_boto_def update_item_def
      success_response_def split: sum.splits if_splits option.splits)

lemma delete_user_frame:
  "delete_user L fault ev w = (r, w') \<Longrightarrow>
   table w' = table w \<or> (\<exists>x. r = Inr x \<and> statusCode x = 204)"
  by (auto simp add: delete_user_def except_boto_def catch_boto_def delete_item_def
      success_response_def split: sum.splits if_splits option.splits)

lemma list_all_users_frame: "snd (list_all_users L fault w) = w"
  by (simp add: list_all_users_def except_boto_def split: sum.splits)

lemma get_user_frame: "snd (get_user L fault ev w) = w"
  by (simp add: get_user_def except_boto_def list_all_users_frame split: sum.splits option.splits)

lemma route_cases:
  "route L fault ev w =
     (Inr (success_response L (JObj [(''message'', JStr ''API is up and running'')]) 200), w)
   \<or> route L fault ev w = create_user L fault ev w
   \<or> route L fault ev w = get_user L fault ev w
   \<or> route L fault ev w = update_user L fault ev w
   \<or> route L fault ev w = delete_user L fault ev w
   \<or> route L fault ev w = (Inr (error_response L 405 ''Method Not Allowed''), w)"
  by (simp add: route_def Let_def)

lemma route_frame:
  assumes "route L fault ev w = (r, w')"
  shows "table w' = table w \<or> (\<exists>x. r = Inr x \<and> statusCode x \<noteq> 400)"
proof -
  consider (health) "route L fault ev w =
        (Inr (success_response L (JObj [(''message'', JStr ''API is up and running'')]) 200), w)"
    | (create) "route L fault ev w = create_user L fault ev w"
    | (read) "route L fault ev w = get_user L fault ev w"
    | (update) "route L fault ev w = update_user L fault ev w"
    | (delete) "route L fault ev w = delete_user L fault ev w"
    | (none) "route L fault ev w = (Inr (error_response L 405 ''Method Not Allowed''), w)"
    using route_cases [of L fault ev w] by blast
  then show ?thesis
  proof cases
    case health
    with assms show ?thesis by simp
  next
    case create
    with assms create_user_frame [of L fault ev w r w'] show ?thesis by auto
  next
    case read
    with assms get_user_frame [of L fault ev w] show ?thesis by auto
  next
    case update
    with assms update_user_frame [of L fault ev w r w'] show ?thesis by auto
  next
    case delete
    with assms delete_user_frame [of L fault ev w r w'] show ?thesis by auto
  next
    case none
    with assms show ?thesis by simp
  qed
qed

text \<open>
  C10. Whenever an invocation is answered with status 400 (a missing \<^verbatim>\<open>user_id\<close>, a missing
  \<^verbatim>\<open>name\<close> or \<^verbatim>\<open>email\<close>, a body that does not parse), the table is exactly what it was
  before: create and update run every check before their one write, and nothing else in the
  handler writes. This holds for every event and every outcome of the backend.
\<close>

theorem validation_failure_writes_nothing:
  assumes "statusCode (fst (lambda_handler L fault ev context w)) = 400"
  shows "table (snd (lambda_handler L fault ev context w)) = table w"
proof -
  obtain r w' where rw: "route L fault ev w = (r, w')"
    by (cases "route L fault ev w")
  then have l: "lambda_handler L fault ev context w = (handle_exn L r, w')"
    by (simp add: lambda_handler_def)
  from route_frame [OF rw] show ?thesis
  proof
    assume "table w' = table w"
    then show ?thesis by (simp add: l)
  next
    assume "\<exists>x. r = Inr x \<and> statusCode x \<noteq> 400"
    with assms l show ?thesis by auto
  qed
qed

theorem validation_failure_writes_nothing_witness:
  "statusCode (fst (lambda_handler sample_lib None
     \<lparr>httpMethod = Some ''PUT'', path = Some ''/users/u1'',
      pathParameters = Val [(''user_id'', ''u1'')], body = Val ''{\"name\": \"Ana\"}''\<rparr> ()
     \<lparr>table = [[(''user_id'', JStr ''u1''), (''name'', JStr ''Bia''), (''email'', JStr ''bia@x.com'')]],
      drawn = 1\<rparr>)) = 400
   \<and> table (snd (lambda_handler sample_lib None
     \<lparr>httpMethod = Some ''PUT'', path = Some ''/users/u1'',
      pathParameters = Val [(''user_id'', ''u1'')], body = Val ''{\"name\": \"Ana\"}''\<rparr> ()
     \<lparr>table = [[(''user_id'', JStr ''u1''), (''name'', JStr ''Bia''), (''email'', JStr ''bia@x.com'')]],
      drawn = 1\<rparr>)) =
     [[(''user_id'', JStr ''u1''), (''name'', JStr ''Bia''), (''email'', JStr ''bia@x.com'')]]"
proof -
  have s: "statusCode (fst (lambda_handler sample_lib None
     \<lparr>httpMethod = Some ''PUT'', path = Some ''/users/u1'',
      pathParameters = Val [(''user_id'', ''u1'')], body = Val ''{\"name\": \"Ana\"}''\<rparr> ()
     \<lparr>table = [[(''user_id'', JStr ''u1''), (''name'', JStr ''Bia''), (''email'', JStr ''bia@x.com'')]],
      drawn = 1\<rparr>)) = 400"
    by (simp add: lambda_handler_def route_def USERS_PATH_def HEALTH_PATH_def startswith_def
        update_user_def path_user_id_def loads_body_def sample_lib_def sample_loads_def
        missing_fields_def except_boto_def catch_boto_def error_response_def)
  from validation_failure_writes_nothing [OF s] s show ?thesis
    by simp
qed

section \<open>Null fields of the event\<close>

text \<open>
  A body that \<^verbatim>\<open>json.loads\<close> rejects is answered with 400 and \<^verbatim>\<open>Invalid JSON format\<close>.
\<close>

lemma malformed_body_400:
  assumes "httpMethod ev = Some ''POST''" and "event.path ev = Some ''/users''"
    and "event.body ev = Val s" and "json_loads L s = Inl m"
  shows "lambda_handler L fault ev context w =
     (\<lparr>statusCode = 400, body = json_dumps L (JObj [(''error'', JStr ''Invalid JSON format'')])\<rparr>, w)"
  using assms
  by (simp add: lambda_handler_def route_post_users create_user_def loads_body_def
      except_boto_def catch_boto_def error_response_def)

text \<open>
  C4. The claim reads a GET under \<^verbatim>\<open>/users\<close> without a \<^verbatim>\<open>user_id\<close> as "list all", also when
  \<^verbatim>\<open>pathParameters\<close> is null. The handler does so when the key \<^verbatim>\<open>pathParameters\<close> is absent
  (second conjunct: status 200 and every item of the table). When the key is present with the
  value null, \<^verbatim>\<open>event.get('pathParameters', {})\<close> returns \<^verbatim>\<open>None\<close>, the call of \<^verbatim>\<open>get\<close> on it
  raises \<^verbatim>\<open>AttributeError\<close>, and the answer is status 500 (first conjunct), for every library,
  table and backend outcome.
\<close>

theorem list_users_null_path_parameters:
  "lambda_handler L fault
     \<lparr>httpMethod = Some ''GET'', path = Some ''/users'', pathParameters = Null, body = Null\<rparr>
     context w =
   (\<lparr>statusCode = 500,
     body = json_dumps L (JObj [(''error'', JStr (''Internal Server Error: '' @ quoted ''NoneType'' @
              '' object has no attribute '' @ quoted ''get''))])\<rparr>, w)
   \<and> lambda_handler L None
     \<lparr>httpMethod = Some ''GET'', path = Some ''/users'', pathParameters = Absent, body = Null\<rparr>
     context w =
   (\<lparr>statusCode = 200, body = json_dumps L (JArr (map JObj (table w)))\<rparr>, w)"
  by (simp add: lambda_handler_def route_def USERS_PATH_def HEALTH_PATH_def startswith_def
      get_user_def path_user_id_def list_all_users_def scan_def except_boto_def catch_boto_def
      error_response_def success_response_def)

text \<open>
  C7. The claim answers every unparseable body of a POST or PUT, a null or absent one
  included, with 400 and \<^verbatim>\<open>Invalid JSON format\<close>. With a null body \<^verbatim>\<open>json.loads(None)\<close> raises
  \<^verbatim>\<open>TypeError\<close>, with no \<^verbatim>\<open>body\<close> key \<^verbatim>\<open>event['body']\<close> raises \<^verbatim>\<open>KeyError\<close>; neither is
  a \<^verbatim>\<open>JSONDecodeError\<close>, so the answer is status 500 with \<^verbatim>\<open>Internal Server Error: ...\<close>, on
  POST and on PUT, for every library, table and backend outcome.
\<close>

theorem null_body_500:
  "lambda_handler L fault
     \<lparr>httpMethod = Some ''POST'', path = Some ''/users'', pathParameters = Null, body = Null\<rparr>
     context w =
   (\<lparr>statusCode = 500,
     body = json_dumps L (JObj [(''error'', JStr
       ''Internal Server Error: the JSON object must be str, bytes or bytearray, not NoneType'')])\<rparr>, w)
   \<and> lambda_handler L fault
     \<lparr>httpMethod = Some ''PUT'', path = Some ''/users/u1'',
      pathParameters = Val [(''user_id'', ''u1'')], body = Null\<rparr>
     context w =
   (\<lparr>statusCode = 500,
     body = json_dumps L (JObj [(''error'', JStr
       ''Internal Server Error: the JSON object must be str, bytes or bytearray, not NoneType'')])\<rparr>, w)
   \<and> lambda_handler L fault
     \<lparr>httpMethod = Some ''POST'', path = Some ''/users'', pathParameters = Null, body = Absent\<rparr>
     context w =
   (\<lparr>statusCode = 500,
     body = json_dumps L (JObj [(''error'', JStr (''Internal Server Error: '' @ quoted ''body''))])\<rparr>, w)"
  by (simp add: lambda_handler_def route_def USERS_PATH_def HEALTH_PATH_def startswith_def
      create_user_def update_user_def path_user_id_def loads_body_def except_boto_def catch_boto_def
      error_response_def)

end
